theory Spec2Isabelle
  imports Main "HOL-Library.Sublist"
begin

section \<open>Text and character classes\<close>

text \<open>
  The script reads each file as text and works on Python \<open>str\<close> values. A text is
  modelled as a \<open>string\<close>, one \<open>char\<close> per code point, so the model covers the
  code points 0 to 255. The line break is the code point 10.
\<close>

abbreviation nl :: char where
  "nl \<equiv> CHR 0x0A"

text \<open>
  \<open>\s\<close> in a \<open>str\<close> pattern is Python's Unicode white space; below 256 these are
  the code points 9 to 13, 28 to 32, 133 and 160. \<open>\d\<close> is a decimal digit; below 256
  these are \<open>0\<close> to \<open>9\<close>.
\<close>

definition is_space :: "char \<Rightarrow> bool" where
  "is_space c = (c \<in> set [CHR 0x09, CHR 0x0A, CHR 0x0B, CHR 0x0C, CHR 0x0D,
                           CHR 0x1C, CHR 0x1D, CHR 0x1E, CHR 0x1F, CHR 0x20,
                           CHR 0x85, CHR 0xA0])"

definition is_digit :: "char \<Rightarrow> bool" where
  "is_digit c = (c \<in> set ''0123456789'')"

section \<open>Regular expressions as the script uses them\<close>

text \<open>
  The five patterns are built from: the anchor \<open>^\<close> under \<open>re.MULTILINE\<close>, literal
  text, the greedy repetitions \<open>*\<close> and \<open>+\<close> of a one-character class (\<open>\s\<close>,
  \<open>\d\<close>, \<open>[^c]\<close>), concatenation, the alternation \<open>(log\.|try)\<close> and the
  lookahead \<open>(?=...)\<close>.
\<close>

datatype cclass = Space | Digit | NotChar char

fun in_class :: "cclass \<Rightarrow> char \<Rightarrow> bool" where
  "in_class Space c = is_space c"
| "in_class Digit c = is_digit c"
| "in_class (NotChar x) c = (c \<noteq> x)"

datatype regex =
    Bol
  | Lit string
  | Star cclass
  | Plus cclass
  | Seq regex regex
  | Alt regex regex
  | Ahead regex

text \<open>
  A position in the text is the pair of a flag and the text still ahead. The flag says
  that the position is the start of the text or directly follows a line break: this is
  where \<open>^\<close> matches under \<open>re.MULTILINE\<close>. \<open>after b w\<close> is the flag once \<open>w\<close>
  has been consumed.
\<close>

type_synonym pos = "bool \<times> string"

fun after :: "bool \<Rightarrow> string \<Rightarrow> bool" where
  "after b [] = b"
| "after b (c # cs) = after (c = nl) cs"

text \<open>
  The backtracking matcher: \<open>ms r p\<close> lists the positions where a match of \<open>r\<close> that
  starts at \<open>p\<close> can end, in the order in which Python's engine tries them. A greedy
  repetition tries the longest run first and gives characters back one at a time; an
  alternation tries its left branch first; a lookahead consumes nothing.
\<close>

fun star :: "cclass \<Rightarrow> bool \<Rightarrow> string \<Rightarrow> pos list" where
  "star k b [] = [(b, [])]"
| "star k b (c # cs) = (if in_class k c then star k (c = nl) cs else []) @ [(b, c # cs)]"

fun ms :: "regex \<Rightarrow> pos \<Rightarrow> pos list" where
  "ms Bol (b, s) = (if b then [(b, s)] else [])"
| "ms (Lit w) (b, s) = (if prefix w s then [(after b w, drop (length w) s)] else [])"
| "ms (Star k) (b, s) = star k b s"
| "ms (Plus k) (b, s) =
     (case s of [] \<Rightarrow> [] | c # cs \<Rightarrow> if in_class k c then star k (c = nl) cs else [])"
| "ms (Seq r1 r2) p = concat (map (ms r2) (ms r1 p))"
| "ms (Alt r1 r2) p = ms r1 p @ ms r2 p"
| "ms (Ahead r) p = (if ms r p = [] then [] else [p])"

text \<open>
  The match the engine reports at a position is the first one in that order. A match
  that consumes nothing is replaced by the empty string like any other, which leaves
  the text as it is, so the substitution treats it as no match.
\<close>

definition first_match :: "regex \<Rightarrow> bool \<Rightarrow> string \<Rightarrow> pos option" where
  "first_match r b s =
     (case ms r (b, s) of
        [] \<Rightarrow> None
      | (b', rest) # _ \<Rightarrow> if length rest < length s then Some (b', rest) else None)"

text \<open>
  \<open>pattern.sub('', content)\<close>: scan from the left; where the pattern matches, drop the
  matched text and go on behind it; elsewhere keep the character and move one step.
\<close>

function sub_from :: "regex \<Rightarrow> bool \<Rightarrow> string \<Rightarrow> string" where
  "sub_from r b s =
     (case first_match r b s of
        Some (b', rest) \<Rightarrow> sub_from r b' rest
      | None \<Rightarrow> (case s of [] \<Rightarrow> [] | c # cs \<Rightarrow> c # sub_from r (c = nl) cs))"
  by pat_completeness auto
termination
  by (relation "measure (\<lambda>(r, b, s). length s)")
     (auto simp: first_match_def split: list.splits if_splits)

declare sub_from.simps [simp del]

definition sub :: "regex \<Rightarrow> string \<Rightarrow> string" where
  "sub r content = sub_from r True content"

section \<open>The Pattern Engine\<close>

fun seqs :: "regex list \<Rightarrow> regex" where
  "seqs [] = Lit []"
| "seqs [r] = r"
| "seqs (r # rs) = Seq r (seqs rs)"

definition pattern1 :: regex where
  "pattern1 = seqs [Bol, Star Space, Lit ''const cached = getCached('',
     Plus (NotChar (CHR '')'')), Lit '');'', Star Space, Lit [nl],
     Star Space, Lit ''if (cached) return cached;'', Star Space, Lit [nl]]"

definition pattern2 :: regex where
  "pattern2 = seqs [Bol, Star Space, Lit ''const cached = getCached('',
     Plus (NotChar (CHR '')'')), Lit '');'', Star Space, Lit [nl],
     Star Space, Lit ''if (cached) {'', Star Space, Lit [nl],
     Star Space, Lit ''return cached;'', Star Space, Lit [nl],
     Star Space, Lit ''}'', Star Space, Lit [nl]]"

definition pattern3 :: regex where
  "pattern3 = seqs [Bol, Star Space, Lit ''setCache('',
     Plus (NotChar (CHR '';'')), Lit '');'', Star Space, Lit [nl]]"

definition pattern4 :: regex where
  "pattern4 = seqs [Bol, Star Space, Lit ''setCache('',
     Plus (NotChar (CHR '';'')), Lit '','', Star Space, Plus Digit, Lit '');'',
     Star Space, Lit [nl]]"

definition pattern_unused_key :: regex where
  "pattern_unused_key = seqs [Bol, Star Space, Lit ''const cacheKey = '',
     Plus (NotChar (CHR '';'')), Lit '';'', Star Space, Lit [nl],
     Ahead (Seq (Star Space) (Alt (Lit ''log.'') (Lit ''try'')))]"

definition remove_cache_blocks :: "string \<Rightarrow> string" where
  "remove_cache_blocks content =
     (let content = sub pattern1 content;
          content = sub pattern2 content;
          content = sub pattern3 content;
          content = sub pattern4 content;
          content = sub pattern_unused_key content
      in content)"

section \<open>The Batch Runner\<close>

definition PROVIDERS_DIR :: string where
  "PROVIDERS_DIR = ''/NAS/Data/Mes Images Docker/toys_api/lib/providers''"


text \<open>
  \<open>os.path.join\<close> on two components: an absolute second component replaces the first;
  otherwise the two are joined by one \<open>/\<close>, unless the first is empty or ends with one.
\<close>

definition path_join :: "string \<Rightarrow> string \<Rightarrow> string" where
  "path_join a p =
     (if prefix ''/'' p then p
      else if a = [] \<or> last a = CHR ''/'' then a @ p
      else a @ ''/'' @ p)"

text \<open>
  \<open>str.count\<close>: the number of occurrences of \<open>w\<close>, counted from the left without
  overlap; for the empty \<open>w\<close>, one more than the length.
\<close>

function str_count :: "string \<Rightarrow> string \<Rightarrow> nat" where
  "str_count w s =
     (if w = [] then length s + 1
      else if prefix w s then 1 + str_count w (drop (length w) s)
      else (case s of [] \<Rightarrow> 0 | c # cs \<Rightarrow> str_count w cs))"
  by pat_completeness auto
termination
  by (relation "measure (\<lambda>(w, s). length s)") (auto simp: prefix_def)

declare str_count.simps [simp del]

definition marker_count :: "string \<Rightarrow> int" where
  "marker_count s = int (str_count ''getCached'' s) + int (str_count ''setCache'' s)"

text \<open>
  The file system is a map from paths to entries. An entry that exists may still refuse
  to be opened for reading (a directory, missing permission, bytes that are not UTF-8)
  or for writing; \<open>open\<close> then raises and, as the script catches nothing, the exception
  ends the run.
\<close>

datatype entry = File (readable: bool) (writable: bool) (content: string)

datatype io_error = CannotRead string | CannotWrite string

datatype io_event = Read string | Write string string

datatype notice =
    NotFound string
  | Changed string int
  | NoChange string
  | Total int nat

record run_state =
  files :: "string \<rightharpoonup> entry"
  total_changes :: int
  events :: "io_event list"
  printed :: "notice list"

definition process_file :: "string \<Rightarrow> run_state \<Rightarrow> io_error + run_state" where
  "process_file filename st =
     (let filepath = path_join PROVIDERS_DIR filename in
      case files st filepath of
        None \<Rightarrow> Inr (st\<lparr>printed := printed st @ [NotFound filename]\<rparr>)
      | Some e \<Rightarrow>
          if \<not> readable e then Inl (CannotRead filepath)
          else
            let original = content e;
                st = st\<lparr>events := events st @ [Read filepath]\<rparr>;
                modified = remove_cache_blocks original
            in if original \<noteq> modified then
                 if \<not> writable e then Inl (CannotWrite filepath)
                 else
                   let st = st\<lparr>files := (files st)(filepath \<mapsto> File (readable e) (writable e) modified),
                                events := events st @ [Write filepath modified]\<rparr>;
                       changes = marker_count original;
                       remaining = marker_count modified;
                       removed = changes - remaining
                   in Inr (st\<lparr>total_changes := total_changes st + removed,
                              printed := printed st @ [Changed filename removed]\<rparr>)
               else Inr (st\<lparr>printed := printed st @ [NoChange filename]\<rparr>))"




section \<open>Properties of the Batch Runner\<close>









text \<open>
  C8. When the engine returns the text of a readable file as it is, the runner reads the
  file, prints the "no change" notice and does nothing else: no write is recorded, the
  files and the total are unchanged.
\<close>

theorem unchanged_file_not_written:
  "files st (path_join PROVIDERS_DIR f) = Some e \<Longrightarrow> readable e \<Longrightarrow>
   remove_cache_blocks (content e) = content e \<Longrightarrow>
     process_file f st =
       Inr (st\<lparr>events := events st @ [Read (path_join PROVIDERS_DIR f)],
               printed := printed st @ [NoChange f]\<rparr>)"
  by (simp add: process_file_def Let_def)

theorem unchanged_file_not_written_witness:
  "remove_cache_blocks ''const x = 1;\<newline>'' = ''const x = 1;\<newline>'' \<and>
   process_file ''lego.js''
     \<lparr>files = [path_join PROVIDERS_DIR ''lego.js'' \<mapsto> File True True ''const x = 1;\<newline>''],
      total_changes = 0, events = [], printed = []\<rparr> =
   Inr \<lparr>files = [path_join PROVIDERS_DIR ''lego.js'' \<mapsto> File True True ''const x = 1;\<newline>''],
      total_changes = 0, events = [Read (path_join PROVIDERS_DIR ''lego.js'')],
      printed = [NoChange ''lego.js'']\<rparr>"
proof -
  let ?e = "File True True ''const x = 1;\<newline>''"
  let ?st = "\<lparr>files = [path_join PROVIDERS_DIR ''lego.js'' \<mapsto> ?e],
      total_changes = 0, events = [], printed = []\<rparr>"
  have h1: "files ?st (path_join PROVIDERS_DIR ''lego.js'') = Some ?e" by simp
  have h2: "readable ?e" by simp
  have h3: "remove_cache_blocks (content ?e) = content ?e" by code_simp
  from unchanged_file_not_written [OF h1 h2 h3] h3 show ?thesis by simp
qed

end
